theory Spec2Isabelle
  imports Main "HOL-Library.Word"
begin

section \<open>JavaScript values, plain objects and the heap\<close>

text \<open>
  The \<open>Context\<close> class keeps its keys in a plain JavaScript object that it holds by
  reference in the private field \<open>_context\<close>. Two \<open>Context\<close> instances can hold the same
  object (\<open>withContext\<close>, \<open>fromJSON\<close>), so objects live in an explicit heap and are named
  by addresses.

  A plain object has own properties, a map from property names to values, and a
  prototype. A property that was assigned \<open>undefined\<close> is present and holds \<open>JUndefined\<close>; a
  property that was never assigned is absent. The prototype of an object created by
  \<open>{}\<close> is the standard \<open>Object.prototype\<close>; it becomes \<open>null\<close> when \<open>null\<close> is assigned to
  \<open>__proto__\<close>. A read of a name that is not an own property finds what the prototype
  provides. On an object whose prototype is \<open>Object.prototype\<close>, an assignment to
  \<open>__proto__\<close>, when that is not an own property, goes to the accessor that
  \<open>Object.prototype\<close> provides.
\<close>

type_synonym addr = nat

type_synonym bytes = "8 word list"

datatype jsval =
    JUndefined
  | JNull
  | JBool bool
  | JNum int
  | JStr string
  | JTransport string
  | JObj addr
  | JCtx addr
  | JObjectPrototype
  | JBuiltin string

datatype js_error = Error string | TypeError string

type_synonym obj = "string \<rightharpoonup> jsval"

datatype proto = ObjectPrototype | NullPrototype

record heap =
  objs :: "addr \<Rightarrow> obj"
  protos :: "addr \<Rightarrow> proto"
  ctxs :: "addr \<Rightarrow> addr"
  next_addr :: addr

text \<open>
  \<open>objs h a\<close> are the own properties of the plain object at address \<open>a\<close> and \<open>protos h a\<close>
  is its prototype; \<open>ctxs h c\<close> is the \<open>_context\<close> field of the \<open>Context\<close> instance at
  address \<open>c\<close>; addresses from \<open>next_addr h\<close> on are free.
\<close>

definition empty_heap :: heap where
  "empty_heap =
     \<lparr>objs = (\<lambda>_. Map.empty), protos = (\<lambda>_. ObjectPrototype), ctxs = (\<lambda>_. 0), next_addr = 0\<rparr>"

text \<open>
  The values that are objects: functions, \<open>Context\<close> instances, plain objects and
  \<open>Object.prototype\<close> itself. \<open>null\<close> is not one of them.
\<close>

fun is_object :: "jsval \<Rightarrow> bool" where
  "is_object (JTransport t) = True"
| "is_object (JObj a) = True"
| "is_object (JCtx c) = True"
| "is_object JObjectPrototype = True"
| "is_object (JBuiltin f) = True"
| "is_object v = False"

text \<open>
  The data properties of the standard \<open>Object.prototype\<close>, each a built-in function. Its
  one accessor property, \<open>__proto__\<close>, is treated where properties are read and written.
\<close>

definition Object_prototype :: "string \<rightharpoonup> jsval" where
  "Object_prototype =
     map_of
       [(''constructor'', JBuiltin ''Object''),
        (''hasOwnProperty'', JBuiltin ''Object.prototype.hasOwnProperty''),
        (''isPrototypeOf'', JBuiltin ''Object.prototype.isPrototypeOf''),
        (''propertyIsEnumerable'', JBuiltin ''Object.prototype.propertyIsEnumerable''),
        (''toLocaleString'', JBuiltin ''Object.prototype.toLocaleString''),
        (''toString'', JBuiltin ''Object.prototype.toString''),
        (''valueOf'', JBuiltin ''Object.prototype.valueOf''),
        (''__defineGetter__'', JBuiltin ''Object.prototype.__defineGetter__''),
        (''__defineSetter__'', JBuiltin ''Object.prototype.__defineSetter__''),
        (''__lookupGetter__'', JBuiltin ''Object.prototype.__lookupGetter__''),
        (''__lookupSetter__'', JBuiltin ''Object.prototype.__lookupSetter__'')]"

text \<open>
  What a read of \<open>key\<close> finds when \<open>key\<close> is not an own property. With \<open>Object.prototype\<close>
  as prototype, \<open>__proto__\<close> is the accessor, whose getter returns the object's prototype.
\<close>

definition inherited :: "proto \<Rightarrow> string \<Rightarrow> jsval" where
  "inherited p key =
     (case p of
        NullPrototype \<Rightarrow> JUndefined
      | ObjectPrototype \<Rightarrow>
          if key = ''__proto__'' then JObjectPrototype
          else (case Object_prototype key of None \<Rightarrow> JUndefined | Some f \<Rightarrow> f))"

text \<open>The external \<open>ThreadID\<close> class wraps the identifier's bytes.\<close>

datatype ThreadID = ThreadID (buf: bytes)

section \<open>The Context class\<close>

definition defaultHost :: string where
  "defaultHost = ''https://api.textile.io:3447''"

text \<open>
  The assignment \<open>this._context[key] = value\<close> where it stores an own property: the
  property is updated if the object has it and created if not.
\<close>

definition assign :: "heap \<Rightarrow> addr \<Rightarrow> string \<Rightarrow> jsval \<Rightarrow> heap" where
  "assign h this key v =
     h\<lparr>objs := (objs h)(ctxs h this := (objs h (ctxs h this))(key \<mapsto> v))\<rparr>"

text \<open>
  \<open>new Context(host, transport, debug)\<close>: the field initialiser allocates a fresh empty
  object, then the constructor body stores the three arguments, each with its default.
\<close>

definition Context_new ::
  "heap \<Rightarrow> string option \<Rightarrow> jsval option \<Rightarrow> bool option \<Rightarrow> heap \<times> addr" where
  "Context_new h host transport debug =
     (let a = next_addr h;
          this = Suc a;
          h0 = h\<lparr>objs := (objs h)(a := Map.empty),
                 protos := (protos h)(a := ObjectPrototype),
                 ctxs := (ctxs h)(this := a),
                 next_addr := Suc this\<rparr>;
          h1 = assign h0 this ''host''
                 (JStr (case host of None \<Rightarrow> defaultHost | Some x \<Rightarrow> x));
          h2 = assign h1 this ''transport''
                 (case transport of None \<Rightarrow> JTransport ''WebsocketTransport'' | Some t \<Rightarrow> t);
          h3 = assign h2 this ''debug''
                 (JBool (case debug of None \<Rightarrow> False | Some d \<Rightarrow> d))
      in (h3, this))"

text \<open>\<open>get\<close> returns \<open>this._context[key]\<close>: the own property if there is one, and what the
  prototype provides if not.\<close>

definition Context_get :: "heap \<Rightarrow> addr \<Rightarrow> string \<Rightarrow> jsval" where
  "Context_get h this key =
     (case objs h (ctxs h this) key of
        None \<Rightarrow> inherited (protos h (ctxs h this)) key
      | Some v \<Rightarrow> v)"

text \<open>
  \<open>writes_own h this key\<close>: the assignment \<open>this._context[key] = value\<close> stores an own
  property. That is so for every key but \<open>__proto__\<close>, and for \<open>__proto__\<close> as well when
  the object has an own property of that name or has no prototype.
\<close>

definition writes_own :: "heap \<Rightarrow> addr \<Rightarrow> string \<Rightarrow> bool" where
  "writes_own h this key =
     (key \<noteq> ''__proto__''
      \<or> objs h (ctxs h this) key \<noteq> None
      \<or> protos h (ctxs h this) = NullPrototype)"

text \<open>
  \<open>set\<close> performs \<open>this._context[key] = value\<close> and returns \<open>this\<close>. Where the assignment
  does not store an own property it calls the \<open>__proto__\<close> setter of \<open>Object.prototype\<close>:
  \<open>null\<close> removes the object's prototype, \<open>Object.prototype\<close> itself leaves it as it is,
  and a value that is not an object is ignored. Any other object would become the
  prototype; the heap has no key sets with such a prototype, and the result is \<open>None\<close>:
  the model says nothing about that call.
\<close>

definition Context_set :: "heap \<Rightarrow> addr \<Rightarrow> string \<Rightarrow> jsval \<Rightarrow> (heap \<times> jsval) option" where
  "Context_set h this key v =
     (if writes_own h this key then Some (assign h this key v, JCtx this)
      else if v = JNull
        then Some (h\<lparr>protos := (protos h)(ctxs h this := NullPrototype)\<rparr>, JCtx this)
      else if v = JObjectPrototype \<or> \<not> is_object v then Some (h, JCtx this)
      else None)"

definition withSession :: "heap \<Rightarrow> addr \<Rightarrow> string option \<Rightarrow> heap \<times> jsval" where
  "withSession h this v =
     (case v of
        None \<Rightarrow> (h, JCtx this)
      | Some s \<Rightarrow> (assign h this ''x-textile-session'' (JStr s), JCtx this))"

text \<open>\<open>withThread\<close> stores \<open>value.toString()\<close>; \<open>toString\<close> belongs to the external
  \<open>ThreadID\<close> class and is a parameter.\<close>

definition withThread ::
  "(ThreadID \<Rightarrow> string) \<Rightarrow> heap \<Rightarrow> addr \<Rightarrow> ThreadID option \<Rightarrow> heap \<times> jsval" where
  "withThread toString h this v =
     (case v of
        None \<Rightarrow> (h, JCtx this)
      | Some t \<Rightarrow> (assign h this ''x-textile-thread'' (JStr (toString t)), JCtx this))"

definition withThreadName :: "heap \<Rightarrow> addr \<Rightarrow> string option \<Rightarrow> heap \<times> jsval" where
  "withThreadName h this v =
     (case v of
        None \<Rightarrow> (h, JCtx this)
      | Some s \<Rightarrow> (assign h this ''x-textile-thread-name'' (JStr s), JCtx this))"

definition withOrg :: "heap \<Rightarrow> addr \<Rightarrow> string option \<Rightarrow> heap \<times> jsval" where
  "withOrg h this v =
     (case v of
        None \<Rightarrow> (h, JCtx this)
      | Some s \<Rightarrow> (assign h this ''x-textile-org'' (JStr s), JCtx this))"

definition withToken :: "heap \<Rightarrow> addr \<Rightarrow> string option \<Rightarrow> heap \<times> jsval" where
  "withToken h this v =
     (case v of
        None \<Rightarrow> (h, JCtx this)
      | Some s \<Rightarrow> (assign h this ''authorization'' (JStr (''bearer '' @ s)), JCtx this))"

text \<open>\<open>withAPIKey\<close> ends in a bare \<open>return\<close>: with a defined argument the call yields
  \<open>undefined\<close>.\<close>

definition withAPIKey :: "heap \<Rightarrow> addr \<Rightarrow> string option \<Rightarrow> heap \<times> jsval" where
  "withAPIKey h this v =
     (case v of
        None \<Rightarrow> (h, JCtx this)
      | Some s \<Rightarrow> (assign h this ''x-textile-api-key'' (JStr s), JUndefined))"

record APISig =
  sig :: string
  msg :: string

definition withAPISig :: "heap \<Rightarrow> addr \<Rightarrow> APISig option \<Rightarrow> heap \<times> jsval" where
  "withAPISig h this v =
     (case v of
        None \<Rightarrow> (h, JCtx this)
      | Some s \<Rightarrow>
          (let h1 = assign h this ''x-textile-api-sig-msg'' (JStr (msg s));
               h2 = assign h1 this ''x-textile-api-sig'' (JStr (sig s))
           in (h2, JCtx this)))"

text \<open>\<open>withContext\<close> copies the reference held by the other instance.\<close>

definition withContext :: "heap \<Rightarrow> addr \<Rightarrow> addr option \<Rightarrow> heap \<times> jsval" where
  "withContext h this v =
     (case v of
        None \<Rightarrow> (h, JCtx this)
      | Some other \<Rightarrow> (h\<lparr>ctxs := (ctxs h)(this := ctxs h other)\<rparr>, JCtx this))"

text \<open>\<open>toJSON\<close> returns the object held in \<open>_context\<close> itself, that is its address.\<close>

definition toJSON :: "heap \<Rightarrow> addr \<Rightarrow> addr" where
  "toJSON h this = ctxs h this"

definition fromJSON :: "heap \<Rightarrow> addr \<Rightarrow> heap \<times> addr" where
  "fromJSON h json =
     (case Context_new h None None None of
        (h1, ctx) \<Rightarrow> (h1\<lparr>ctxs := (ctxs h1)(ctx := json)\<rparr>, ctx))"

subsection \<open>Sequences and chains of mutator calls\<close>

datatype call =
    WithSession "string option"
  | WithThread "ThreadID option"
  | WithThreadName "string option"
  | WithOrg "string option"
  | WithToken "string option"
  | WithAPIKey "string option"
  | WithAPISig "APISig option"

fun invoke :: "(ThreadID \<Rightarrow> string) \<Rightarrow> heap \<Rightarrow> addr \<Rightarrow> call \<Rightarrow> heap \<times> jsval" where
  "invoke ts h this (WithSession v) = withSession h this v"
| "invoke ts h this (WithThread v) = withThread ts h this v"
| "invoke ts h this (WithThreadName v) = withThreadName h this v"
| "invoke ts h this (WithOrg v) = withOrg h this v"
| "invoke ts h this (WithToken v) = withToken h this v"
| "invoke ts h this (WithAPIKey v) = withAPIKey h this v"
| "invoke ts h this (WithAPISig v) = withAPISig h this v"

text \<open>
  \<open>run_calls\<close> is a sequence of statements \<open>ctx.m1(v1); ctx.m2(v2); ...\<close> on one receiver;
  the returned values are dropped. \<open>chain\<close> is the expression \<open>ctx.m1(v1).m2(v2)...\<close>:
  each call's receiver is the value the previous call returned, and a method call on
  a value that is not a \<open>Context\<close> throws a \<open>TypeError\<close>.
\<close>

fun run_calls :: "(ThreadID \<Rightarrow> string) \<Rightarrow> heap \<Rightarrow> addr \<Rightarrow> call list \<Rightarrow> heap" where
  "run_calls ts h this [] = h"
| "run_calls ts h this (c # cs) = run_calls ts (fst (invoke ts h this c)) this cs"

fun chain ::
  "(ThreadID \<Rightarrow> string) \<Rightarrow> heap \<Rightarrow> jsval \<Rightarrow> call list \<Rightarrow> js_error + heap \<times> jsval" where
  "chain ts h v [] = Inr (h, v)"
| "chain ts h (JCtx this) (c # cs) =
     (case invoke ts h this c of (h', v') \<Rightarrow> chain ts h' v' cs)"
| "chain ts h v (c # cs) = Inl (TypeError ''not a Context'')"

subsection \<open>What the specification says a sequence of mutator calls leaves behind\<close>

text \<open>
  These three functions follow the specification's words, not the code. A \<open>with*\<close>
  call with a defined argument sets its recognised key (the two signature keys for
  \<open>withAPISig\<close>, the bearer form for \<open>withToken\<close>, the string form for \<open>withThread\<close>); a
  call with \<open>undefined\<close> sets nothing. \<open>spec_last_value\<close> is the last value set for a key
  in a sequence of calls, if any call sets it.
\<close>

fun spec_writes :: "(ThreadID \<Rightarrow> string) \<Rightarrow> call \<Rightarrow> (string \<times> jsval) list" where
  "spec_writes ts (WithSession (Some v)) = [(''x-textile-session'', JStr v)]"
| "spec_writes ts (WithThread (Some t)) = [(''x-textile-thread'', JStr (ts t))]"
| "spec_writes ts (WithThreadName (Some v)) = [(''x-textile-thread-name'', JStr v)]"
| "spec_writes ts (WithOrg (Some v)) = [(''x-textile-org'', JStr v)]"
| "spec_writes ts (WithToken (Some v)) = [(''authorization'', JStr (''bearer '' @ v))]"
| "spec_writes ts (WithAPIKey (Some v)) = [(''x-textile-api-key'', JStr v)]"
| "spec_writes ts (WithAPISig (Some s)) =
     [(''x-textile-api-sig'', JStr (sig s)), (''x-textile-api-sig-msg'', JStr (msg s))]"
| "spec_writes ts _ = []"

fun spec_last_value ::
  "(ThreadID \<Rightarrow> string) \<Rightarrow> call list \<Rightarrow> string \<Rightarrow> jsval option" where
  "spec_last_value ts [] k = None"
| "spec_last_value ts (c # cs) k =
     (case spec_last_value ts cs k of
        Some v \<Rightarrow> Some v
      | None \<Rightarrow> map_of (spec_writes ts c) k)"

fun defined_arg :: "call \<Rightarrow> bool" where
  "defined_arg (WithSession v) = (v \<noteq> None)"
| "defined_arg (WithThread v) = (v \<noteq> None)"
| "defined_arg (WithThreadName v) = (v \<noteq> None)"
| "defined_arg (WithOrg v) = (v \<noteq> None)"
| "defined_arg (WithToken v) = (v \<noteq> None)"
| "defined_arg (WithAPIKey v) = (v \<noteq> None)"
| "defined_arg (WithAPISig v) = (v \<noteq> None)"

subsection \<open>A heap with three contexts\<close>

text \<open>Three \<open>new Context(...)\<close> in a row: the instances are at addresses 1, 3 and 5 and
  their key sets at 0, 2 and 4.\<close>

definition three_contexts :: heap where
  "three_contexts =
     fst (Context_new
       (fst (Context_new
         (fst (Context_new empty_heap None None None))
         (Some ''http://127.0.0.1:3007'') None None))
       None None (Some True))"

section \<open>The users API\<close>

text \<open>
  The API functions are asynchronous: each returns a promise, modelled by \<open>Inr\<close> of the
  value it resolves to or \<open>Inl\<close> of the error it rejects with. The gRPC connection, the
  generated request and reply classes, \<open>ThreadID\<close> and \<open>Buffer\<close> are external:
  \<^item> a connection is a record with one function per method descriptor passed to
    \<open>api.unary\<close>;
  \<^item> a request is the record of the values its setters were called with; for the two
    list requests, whose setters the code calls conditionally, a field is \<open>None\<close> when
    its setter was not called;
  \<^item> a reply is the record of what its getters return;
  \<^item> \<open>Buffer.from(s, 'base64')\<close>, \<open>ThreadID.fromBytes\<close> and \<open>toString\<close> are parameters.
  The type \<open>number\<close> is modelled by \<open>int\<close>.
\<close>

datatype Status = Status_ALL | Status_READ | Status_UNREAD

fun Status_num :: "Status \<Rightarrow> int" where
  "Status_num Status_ALL = 0"
| "Status_num Status_READ = 1"
| "Status_num Status_UNREAD = 2"

text \<open>\<open>InboxListOptions\<close> has the fields of \<open>SentboxListOptions\<close> and \<open>status\<close>; every
  field is optional, and so is the options object itself.\<close>

record SentboxListOptions =
  seek :: "string option"
  limit :: "int option"
  ascending :: "bool option"

record InboxListOptions = SentboxListOptions +
  status :: "Status option"

record UserMessage =
  um_id :: string
  um_to :: string
  um_from :: string
  um_body :: bytes
  um_signature :: bytes
  um_createdAt :: int
  um_readAt :: "int option"

datatype MailboxEventType = CREATE | SAVE | DELETE

fun MailboxEventType_num :: "MailboxEventType \<Rightarrow> int" where
  "MailboxEventType_num CREATE = 0"
| "MailboxEventType_num SAVE = 1"
| "MailboxEventType_num DELETE = 2"

text \<open>At run time the \<open>type\<close> field of a \<open>MailboxEvent\<close> holds a number.\<close>

record MailboxEvent =
  ev_type :: int
  ev_messageID :: string
  ev_message :: "UserMessage option"

record IntermediateMessage =
  im_id :: string
  im_from :: string
  im_to :: string
  im_body :: string
  im_signature :: string
  im_created_at :: int
  im_read_at :: int

text \<open>The generic update of the threads client; \<open>retype\<close> reads its action as a
  number.\<close>

record Update =
  upd_instance :: "IntermediateMessage option"
  upd_collectionName :: string
  upd_instanceID :: string
  upd_action :: int

record Message =
  getBody_asU8 :: bytes
  getSignature_asU8 :: bytes
  getFrom :: string
  getId :: string
  getTo :: string
  getCreatedat :: int
  getReadat :: int

record ListMessagesReply =
  getMessagesList :: "Message list"

record SetupMailboxReply =
  getMailboxid_asB64 :: string

record SendMessageRequest =
  rq_to :: string
  rq_tobody :: bytes
  rq_tosignature :: bytes
  rq_frombody :: bytes
  rq_fromsignature :: bytes

record SendMessageReply =
  rp_id :: string
  rp_createdat :: int

record ListSentboxMessagesRequest =
  rq_seek :: "string option"
  rq_limit :: "int option"
  rq_ascending :: "bool option"

record ListInboxMessagesRequest = ListSentboxMessagesRequest +
  rq_status :: "Status option"

record GrpcConnection =
  unary_SetupMailbox :: "unit \<Rightarrow> addr option \<Rightarrow> js_error + SetupMailboxReply"
  unary_SendMessage :: "SendMessageRequest \<Rightarrow> addr option \<Rightarrow> js_error + SendMessageReply"
  unary_ListInboxMessages ::
    "ListInboxMessagesRequest \<Rightarrow> addr option \<Rightarrow> js_error + ListMessagesReply"
  unary_ListSentboxMessages ::
    "ListSentboxMessagesRequest \<Rightarrow> addr option \<Rightarrow> js_error + ListMessagesReply"

definition convertMessageObj :: "Message \<Rightarrow> UserMessage" where
  "convertMessageObj input =
     \<lparr>um_id = getId input,
      um_to = getTo input,
      um_from = getFrom input,
      um_body = getBody_asU8 input,
      um_signature = getSignature_asU8 input,
      um_createdAt = getCreatedat input,
      um_readAt = Some (getReadat input)\<rparr>"

definition setupMailbox ::
  "(string \<Rightarrow> bytes) \<Rightarrow> (bytes \<Rightarrow> js_error + ThreadID) \<Rightarrow> (ThreadID \<Rightarrow> string) \<Rightarrow>
   GrpcConnection \<Rightarrow> addr option \<Rightarrow> js_error + string" where
  "setupMailbox Buffer_from_base64 fromBytes toString api ctx =
     (case unary_SetupMailbox api () ctx of
        Inl e \<Rightarrow> Inl e
      | Inr res \<Rightarrow>
          (case fromBytes (Buffer_from_base64 (getMailboxid_asB64 res)) of
             Inl e \<Rightarrow> Inl e
           | Inr t \<Rightarrow> Inr (toString t)))"

definition sendMessage ::
  "GrpcConnection \<Rightarrow> string \<Rightarrow> string \<Rightarrow> bytes \<Rightarrow> bytes \<Rightarrow> bytes \<Rightarrow> bytes \<Rightarrow> addr option \<Rightarrow>
   js_error + UserMessage" where
  "sendMessage api from to toBody toSignature fromBody fromSignature ctx =
     (let req = \<lparr>rq_to = to, rq_tobody = toBody, rq_tosignature = toSignature,
                 rq_frombody = fromBody, rq_fromsignature = fromSignature\<rparr>
      in case unary_SendMessage api req ctx of
           Inl e \<Rightarrow> Inl e
         | Inr res \<Rightarrow>
             Inr \<lparr>um_id = rp_id res,
                  um_to = to,
                  um_from = from,
                  um_body = fromBody,
                  um_signature = fromSignature,
                  um_createdAt = rp_createdat res,
                  um_readAt = None\<rparr>)"

subsection \<open>Listing\<close>

text \<open>JavaScript truthiness of a defined string and of a defined number; \<open>undefined\<close> is
  falsy and is the \<open>None\<close> branch of each test below.\<close>

definition truthy_string :: "string \<Rightarrow> bool" where
  "truthy_string s = (s \<noteq> [])"

definition truthy_number :: "int \<Rightarrow> bool" where
  "truthy_number n = (n \<noteq> 0)"

text \<open>
  The request that \<open>listInboxMessages\<close> builds before it calls the transport: the four
  statements of the form \<open>if (opts && opts.f) req.setF(opts.f)\<close>.
\<close>

definition listInboxMessages_req :: "InboxListOptions option \<Rightarrow> ListInboxMessagesRequest" where
  "listInboxMessages_req opts =
     (let req = \<lparr>rq_seek = None, rq_limit = None, rq_ascending = None, rq_status = None\<rparr>;
          req = (case opts of None \<Rightarrow> req | Some ops \<Rightarrow>
                   (case seek ops of None \<Rightarrow> req | Some v \<Rightarrow>
                      if truthy_string v then req\<lparr>rq_seek := Some v\<rparr> else req));
          req = (case opts of None \<Rightarrow> req | Some ops \<Rightarrow>
                   (case limit ops of None \<Rightarrow> req | Some v \<Rightarrow>
                      if truthy_number v then req\<lparr>rq_limit := Some v\<rparr> else req));
          req = (case opts of None \<Rightarrow> req | Some ops \<Rightarrow>
                   (case ascending ops of None \<Rightarrow> req | Some v \<Rightarrow>
                      if v then req\<lparr>rq_ascending := Some v\<rparr> else req));
          req = (case opts of None \<Rightarrow> req | Some ops \<Rightarrow>
                   (case status ops of None \<Rightarrow> req | Some v \<Rightarrow>
                      if truthy_number (Status_num v) then req\<lparr>rq_status := Some v\<rparr> else req))
      in req)"

definition listInboxMessages ::
  "GrpcConnection \<Rightarrow> InboxListOptions option \<Rightarrow> addr option \<Rightarrow> js_error + UserMessage list" where
  "listInboxMessages api opts ctx =
     (case unary_ListInboxMessages api (listInboxMessages_req opts) ctx of
        Inl e \<Rightarrow> Inl e
      | Inr res \<Rightarrow> Inr (map convertMessageObj (getMessagesList res)))"

definition listSentboxMessages_req ::
  "SentboxListOptions option \<Rightarrow> ListSentboxMessagesRequest" where
  "listSentboxMessages_req opts =
     (let req = \<lparr>rq_seek = None, rq_limit = None, rq_ascending = None\<rparr>;
          req = (case opts of None \<Rightarrow> req | Some ops \<Rightarrow>
                   (case seek ops of None \<Rightarrow> req | Some v \<Rightarrow>
                      if truthy_string v then req\<lparr>rq_seek := Some v\<rparr> else req));
          req = (case opts of None \<Rightarrow> req | Some ops \<Rightarrow>
                   (case limit ops of None \<Rightarrow> req | Some v \<Rightarrow>
                      if truthy_number v then req\<lparr>rq_limit := Some v\<rparr> else req));
          req = (case opts of None \<Rightarrow> req | Some ops \<Rightarrow>
                   (case ascending ops of None \<Rightarrow> req | Some v \<Rightarrow>
                      if v then req\<lparr>rq_ascending := Some v\<rparr> else req))
      in req)"

definition listSentboxMessages ::
  "GrpcConnection \<Rightarrow> SentboxListOptions option \<Rightarrow> addr option \<Rightarrow> js_error + UserMessage list" where
  "listSentboxMessages api opts ctx =
     (case unary_ListSentboxMessages api (listSentboxMessages_req opts) ctx of
        Inl e \<Rightarrow> Inl e
      | Inr res \<Rightarrow> Inr (map convertMessageObj (getMessagesList res)))"

subsection \<open>Watching a mailbox\<close>

text \<open>
  \<open>retype\<close> is the closure that \<open>watchMailbox\<close> hands to \<open>client.listen\<close>. It has no
  \<open>throw\<close>; each invocation ends in exactly one call of the caller's \<open>callback\<close>, and the
  model returns the two arguments of that call.
\<close>

datatype callback_args = Callback "MailboxEvent option" "js_error option"

definition retype ::
  "(string \<Rightarrow> bytes) \<Rightarrow> Update option \<Rightarrow> js_error option \<Rightarrow> callback_args" where
  "retype Buffer_from_base64 reply err =
     (case reply of
        None \<Rightarrow> Callback None err
      | Some r \<Rightarrow>
          (let result = \<lparr>ev_type = upd_action r,
                         ev_messageID = upd_instanceID r,
                         ev_message = None\<rparr>;
               result =
                 (case upd_instance r of
                    None \<Rightarrow> result
                  | Some inst \<Rightarrow>
                      result\<lparr>ev_message := Some
                        \<lparr>um_id = upd_instanceID r,
                         um_to = im_to inst,
                         um_from = im_from inst,
                         um_body = Buffer_from_base64 (im_body inst),
                         um_signature = Buffer_from_base64 (im_signature inst),
                         um_createdAt = im_created_at inst,
                         um_readAt = Some (im_read_at inst)\<rparr>\<rparr>)
           in Callback (Some result) None))"

subsection \<open>Instances of the external functions for the examples\<close>

text \<open>
  The examples below need concrete functions for the parameters: a decoder of
  well-formed base64 text (characters outside the alphabet, the padding among them, are
  skipped), the base16 multibase string of an identifier's bytes, a \<open>fromBytes\<close> that
  rejects the empty byte sequence, and a connection whose methods answer with fixed
  replies.
\<close>

definition base64_index :: "char \<Rightarrow> nat option" where
  "base64_index c =
     (let n = (of_char c :: nat) in
      if 65 \<le> n \<and> n \<le> 90 then Some (n - 65)
      else if 97 \<le> n \<and> n \<le> 122 then Some (n - 71)
      else if 48 \<le> n \<and> n \<le> 57 then Some (n + 4)
      else if n = 43 then Some 62
      else if n = 47 then Some 63
      else None)"

fun base64_bytes :: "nat list \<Rightarrow> bytes" where
  "base64_bytes (a # b # c # d # rest) =
     of_nat (a * 4 + b div 16) # of_nat (b mod 16 * 16 + c div 4) # of_nat (c mod 4 * 64 + d)
       # base64_bytes rest"
| "base64_bytes [a, b, c] = [of_nat (a * 4 + b div 16), of_nat (b mod 16 * 16 + c div 4)]"
| "base64_bytes [a, b] = [of_nat (a * 4 + b div 16)]"
| "base64_bytes _ = []"

definition base64_decode :: "string \<Rightarrow> bytes" where
  "base64_decode s = base64_bytes (List.map_filter base64_index s)"

definition base16_string :: "ThreadID \<Rightarrow> string" where
  "base16_string t =
     CHR ''f'' # concat (map (\<lambda>b. [''0123456789abcdef'' ! (unat b div 16),
                                     ''0123456789abcdef'' ! (unat b mod 16)]) (buf t))"

definition nonempty_fromBytes :: "bytes \<Rightarrow> js_error + ThreadID" where
  "nonempty_fromBytes bs = (if bs = [] then Inl (Error ''empty identifier'') else Inr (ThreadID bs))"

definition fixed_replies :: GrpcConnection where
  "fixed_replies =
     \<lparr>unary_SetupMailbox = (\<lambda>req ctx. Inr \<lparr>getMailboxid_asB64 = ''AAEC''\<rparr>),
      unary_SendMessage = (\<lambda>req ctx. Inr \<lparr>rp_id = ''msg-1'', rp_createdat = 1000\<rparr>),
      unary_ListInboxMessages = (\<lambda>req ctx. Inr \<lparr>getMessagesList = []\<rparr>),
      unary_ListSentboxMessages = (\<lambda>req ctx. Inr \<lparr>getMessagesList = []\<rparr>)\<rparr>"

section \<open>Properties of the Context class\<close>

lemma assign_ctxs [simp]: "ctxs (assign h this key v) = ctxs h"
  by (simp add: assign_def)

lemma assign_protos [simp]: "protos (assign h this key v) = protos h"
  by (simp add: assign_def)

lemma assign_next_addr [simp]: "next_addr (assign h this key v) = next_addr h"
  by (simp add: assign_def)

lemma assign_objs:
  "objs (assign h this key v) a =
     (if a = ctxs h this then (objs h a)(key \<mapsto> v) else objs h a)"
  by (simp add: assign_def)

lemma Context_get_assign:
  "Context_get (assign h this key v) other key' =
     (if ctxs h other = ctxs h this \<and> key' = key then v else Context_get h other key')"
  by (simp add: Context_get_def assign_objs split: option.split)

lemma Context_get_same_object:
  "ctxs h a = ctxs h b \<Longrightarrow> Context_get h a key = Context_get h b key"
  by (simp add: Context_get_def split: option.split)

lemma Context_set_same_object:
  "ctxs h a = ctxs h b \<Longrightarrow>
     map_option fst (Context_set h a key v) = map_option fst (Context_set h b key v)"
  by (simp add: Context_set_def writes_own_def assign_def)

lemma Context_set_ctxs:
  "Context_set h this key v = Some (h', r) \<Longrightarrow> ctxs h' = ctxs h \<and> r = JCtx this"
  by (auto simp add: Context_set_def split: if_splits)

lemma Context_set_other_object:
  "Context_set h this key v = Some (h', r) \<Longrightarrow> ctxs h other \<noteq> ctxs h this \<Longrightarrow>
     Context_get h' other key' = Context_get h other key'"
  by (auto simp add: Context_set_def Context_get_def assign_def split: if_splits option.split)

lemma three_contexts_ctxs:
  "ctxs three_contexts 1 = 0" "ctxs three_contexts 3 = 2" "ctxs three_contexts 5 = 4"
  by (simp_all add: three_contexts_def Context_new_def empty_heap_def Let_def)




lemma three_contexts_debug:
  "Context_get three_contexts 5 ''debug'' = JBool True"
  "Context_get three_contexts 1 ''debug'' = JBool False"
  by (simp_all add: three_contexts_def Context_new_def empty_heap_def Let_def Context_get_def
        assign_def)

lemma sibling_mutators_return_this:
  "snd (withSession h this v1) = JCtx this"
  "snd (withThread ts h this v2) = JCtx this"
  "snd (withThreadName h this v3) = JCtx this"
  "snd (withOrg h this v4) = JCtx this"
  "snd (withToken h this v5) = JCtx this"
  "snd (withAPISig h this v6) = JCtx this"
  "snd (withAPIKey h this None) = JCtx this"
  by (simp_all add: withSession_def withThread_def withThreadName_def withOrg_def
        withToken_def withAPISig_def withAPIKey_def Let_def split: option.split)

text \<open>
  C1. With a defined key, \<open>withAPIKey\<close> stores the key but returns \<open>undefined\<close>, not the
  receiver; a chain that continues after it throws a \<open>TypeError\<close>.
\<close>

theorem withAPIKey_returns_undefined:
  "snd (withAPIKey h this (Some key)) = JUndefined
   \<and> snd (withAPIKey h this (Some key)) \<noteq> JCtx this
   \<and> Context_get (fst (withAPIKey h this (Some key))) this ''x-textile-api-key'' = JStr key
   \<and> chain ts h (JCtx this) [WithAPIKey (Some key), c] = Inl (TypeError ''not a Context'')"
  by (simp add: withAPIKey_def Context_get_assign)




lemma invoke_ctxs [simp]: "ctxs (fst (invoke ts h this c)) = ctxs h"
  by (cases c)
     (simp_all add: withSession_def withThread_def withThreadName_def withOrg_def
        withToken_def withAPIKey_def withAPISig_def Let_def split: option.splits)

lemma invoke_protos [simp]: "protos (fst (invoke ts h this c)) = protos h"
  by (cases c)
     (simp_all add: withSession_def withThread_def withThreadName_def withOrg_def
        withToken_def withAPIKey_def withAPISig_def Let_def split: option.splits)

lemma run_calls_protos [simp]: "protos (run_calls ts h this cs) = protos h"
  by (induction cs arbitrary: h) simp_all

lemma invoke_objs:
  "objs (fst (invoke ts h this c)) a k =
     (if a = ctxs h this
      then (case map_of (spec_writes ts c) k of Some v \<Rightarrow> Some v | None \<Rightarrow> objs h a k)
      else objs h a k)"
  by (cases c)
     (auto simp add: withSession_def withThread_def withThreadName_def withOrg_def
        withToken_def withAPIKey_def withAPISig_def Let_def assign_objs split: option.splits)

lemma invoke_undefined: "\<not> defined_arg c \<Longrightarrow> fst (invoke ts h this c) = h"
  by (cases c)
     (simp_all add: withSession_def withThread_def withThreadName_def withOrg_def
        withToken_def withAPIKey_def withAPISig_def)

lemma run_calls_ctxs [simp]: "ctxs (run_calls ts h this cs) = ctxs h"
  by (induction cs arbitrary: h) simp_all

lemma run_calls_objs:
  "objs (run_calls ts h this cs) (ctxs h this) k =
     (case spec_last_value ts cs k of Some v \<Rightarrow> Some v | None \<Rightarrow> objs h (ctxs h this) k)"
proof (induction cs arbitrary: h)
  case Nil
  show ?case by simp
next
  case (Cons c cs)
  have "objs (run_calls ts (fst (invoke ts h this c)) this cs) (ctxs (fst (invoke ts h this c)) this) k =
     (case spec_last_value ts cs k of Some v \<Rightarrow> Some v
      | None \<Rightarrow> objs (fst (invoke ts h this c)) (ctxs (fst (invoke ts h this c)) this) k)"
    by (rule Cons.IH)
  then show ?case
    by (simp add: invoke_objs split: option.splits)
qed

lemma run_calls_filter:
  "run_calls ts h this (filter defined_arg cs) = run_calls ts h this cs"
  by (induction cs arbitrary: h) (simp_all add: invoke_undefined)

text \<open>
  C5. After any sequence of \<open>with*\<close> mutator calls on a context, \<open>toJSON()\<close> is still the
  same object and maps every key to the last value set for it in the sequence (the
  value it had before, when no call set it). Calls whose argument is \<open>undefined\<close> can be
  deleted from the sequence without changing the resulting heap, and each of them
  leaves the heap exactly as it was.
\<close>

theorem toJSON_last_value:
  "toJSON (run_calls ts h this calls) this = toJSON h this
   \<and> objs (run_calls ts h this calls) (toJSON (run_calls ts h this calls) this) k =
       (case spec_last_value ts calls k of
          Some v \<Rightarrow> Some v
        | None \<Rightarrow> objs h (toJSON h this) k)
   \<and> run_calls ts h this (filter defined_arg calls) = run_calls ts h this calls
   \<and> (\<not> defined_arg c \<longrightarrow> fst (invoke ts h this c) = h)"
  by (simp add: toJSON_def run_calls_objs run_calls_filter invoke_undefined
        split: option.splits)

theorem toJSON_last_value_witness:
  "\<not> defined_arg (WithOrg None)
   \<and> fst (invoke base16_string three_contexts 1 (WithOrg None)) = three_contexts
   \<and> objs (run_calls base16_string three_contexts 1
         [WithToken (Some ''a''), WithOrg None, WithToken (Some ''b''), WithToken None])
        (toJSON three_contexts 1) ''authorization'' = Some (JStr ''bearer b'')
   \<and> objs (run_calls base16_string three_contexts 1
         [WithToken (Some ''a''), WithOrg None, WithToken (Some ''b''), WithToken None])
        (toJSON three_contexts 1) ''debug'' = Some (JBool False)"
proof -
  let ?calls = "[WithToken (Some ''a''), WithOrg None, WithToken (Some ''b''), WithToken None]"
  note A = toJSON_last_value [of base16_string three_contexts 1 ?calls "''authorization''"
             "WithOrg None"]
  note D = toJSON_last_value [of base16_string three_contexts 1 ?calls "''debug''"
             "WithOrg None"]
  have nd: "\<not> defined_arg (WithOrg None)"
    by simp
  have la: "spec_last_value base16_string ?calls ''authorization'' = Some (JStr ''bearer b'')"
    by simp
  have ld: "spec_last_value base16_string ?calls ''debug'' = None"
    by simp
  have dbg: "objs three_contexts (toJSON three_contexts 1) ''debug'' = Some (JBool False)"
    by (simp add: three_contexts_def Context_new_def empty_heap_def Let_def toJSON_def assign_def)
  note u = A [THEN conjunct2, THEN conjunct2, THEN conjunct2, THEN mp, OF nd]
  note p = A [THEN conjunct1]
  note a = A [THEN conjunct2, THEN conjunct1, unfolded p la option.case]
  note d = D [THEN conjunct2, THEN conjunct1, unfolded p ld dbg option.case]
  show ?thesis
    using nd u a d by (intro conjI)
qed

lemma Context_new_fresh:
  "Context_new h host transport debug = (h', this) \<Longrightarrow>
     this = Suc (next_addr h) \<and> ctxs h' this = next_addr h
     \<and> (\<forall>a. a \<noteq> next_addr h \<longrightarrow> objs h' a = objs h a \<and> protos h' a = protos h a)
     \<and> (\<forall>c. c \<noteq> this \<longrightarrow> ctxs h' c = ctxs h c)"
  by (auto simp add: Context_new_def Let_def assign_def)

lemma Context_new_allocated:
  "Context_new h host transport debug = (h', this) \<Longrightarrow> toJSON h' this < next_addr h'"
  by (auto simp add: Context_new_def Let_def toJSON_def)

text \<open>
  C6. \<open>Context.fromJSON(ctx.toJSON())\<close> yields a context whose \<open>toJSON()\<close> is the very
  object \<open>ctx.toJSON()\<close> returned, with every key, extension keys included, as in \<open>ctx\<close>.
  The object \<open>ctx\<close> holds is an allocated one, as every object of a running program is.
\<close>

theorem fromJSON_toJSON_roundtrip:
  assumes "toJSON h ctx < next_addr h"
    and "fromJSON h (toJSON h ctx) = (h', ctx')"
  shows "toJSON h' ctx' = toJSON h ctx
         \<and> objs h' (toJSON h' ctx') = objs h (toJSON h ctx)
         \<and> (\<forall>key. Context_get h' ctx' key = Context_get h ctx key)
         \<and> protos h' (toJSON h' ctx') = protos h (toJSON h ctx)"
proof -
  obtain h1 c1 where new: "Context_new h None None None = (h1, c1)"
    by (cases "Context_new h None None None")
  from assms(2) new have h': "h' = h1\<lparr>ctxs := (ctxs h1)(c1 := toJSON h ctx)\<rparr>" and c: "ctx' = c1"
    by (auto simp add: fromJSON_def)
  from Context_new_fresh [OF new] assms(1)
  have same: "objs h1 (toJSON h ctx) = objs h (toJSON h ctx)"
    and proto: "protos h1 (toJSON h ctx) = protos h (toJSON h ctx)"
    by auto
  show ?thesis
    using same proto by (simp add: h' c toJSON_def Context_get_def split: option.split)
qed

theorem fromJSON_toJSON_roundtrip_witness:
  "Context_set (fst (Context_new empty_heap None None None)) 1 ''x-extra'' (JNum 7)
     = Some (assign (fst (Context_new empty_heap None None None)) 1 ''x-extra'' (JNum 7), JCtx 1)
   \<and> toJSON (assign (fst (Context_new empty_heap None None None)) 1 ''x-extra'' (JNum 7)) 1
     < next_addr (assign (fst (Context_new empty_heap None None None)) 1 ''x-extra'' (JNum 7))
   \<and> Context_get
        (fst (fromJSON (assign (fst (Context_new empty_heap None None None)) 1 ''x-extra'' (JNum 7)) 0))
        (snd (fromJSON (assign (fst (Context_new empty_heap None None None)) 1 ''x-extra'' (JNum 7)) 0))
        ''x-extra'' = JNum 7"
proof -
  let ?h = "assign (fst (Context_new empty_heap None None None)) 1 ''x-extra'' (JNum 7)"
  have s: "Context_set (fst (Context_new empty_heap None None None)) 1 ''x-extra'' (JNum 7)
             = Some (?h, JCtx 1)"
    by (simp add: Context_set_def writes_own_def)
  have a: "toJSON ?h 1 = 0"
    by (simp add: toJSON_def Context_new_def empty_heap_def Let_def)
  have b: "toJSON ?h 1 < next_addr ?h"
    by (simp add: toJSON_def Context_new_def empty_heap_def Let_def)
  have g: "Context_get ?h 1 ''x-extra'' = JNum 7"
    by (simp add: Context_get_assign)
  from fromJSON_toJSON_roundtrip [OF b, of "fst (fromJSON ?h (toJSON ?h 1))" "snd (fromJSON ?h (toJSON ?h 1))"]
  have "Context_get (fst (fromJSON ?h (toJSON ?h 1))) (snd (fromJSON ?h (toJSON ?h 1))) ''x-extra''
          = Context_get ?h 1 ''x-extra''"
    by simp
  with s a b g show ?thesis by simp
qed

lemma withContext_ctxs:
  "ctxs (fst (withContext h this (Some other))) = (ctxs h)(this := ctxs h other)"
  by (simp add: withContext_def)

lemma withContext_objs [simp]: "objs (fst (withContext h this v)) = objs h"
  by (simp add: withContext_def split: option.splits)

lemma withContext_protos [simp]: "protos (fst (withContext h this v)) = protos h"
  by (simp add: withContext_def split: option.splits)

text \<open>
  C9. \<open>a.withContext(b)\<close> makes \<open>a\<close> hold the object \<open>b\<close> holds and copies nothing: both
  \<open>toJSON()\<close> return \<open>b\<close>'s object. A \<open>set\<close> through either context has the same effect on
  the heap as the same \<open>set\<close> through the other, and after it every key reads the same
  through both; for every key other than \<open>__proto__\<close> the value written through one is
  read back through the other. The same holds of a \<open>with*\<close> mutator and of any sequence
  of them. Once \<open>a\<close> has taken the key set of a third context with a different object,
  a write through \<open>b\<close> no longer shows through \<open>a\<close>.
\<close>

theorem withContext_shares_key_set:
  assumes h1: "h1 = fst (withContext h a (Some b))"
  shows "toJSON h1 a = toJSON h b \<and> toJSON h1 b = toJSON h b \<and> objs h1 = objs h
    \<and> map_option fst (Context_set h1 a k v) = map_option fst (Context_set h1 b k v)
    \<and> (k \<noteq> ''__proto__'' \<longrightarrow>
         Context_set h1 a k v = Some (assign h1 a k v, JCtx a)
         \<and> Context_get (assign h1 a k v) b k = v)
    \<and> (k \<noteq> ''__proto__'' \<longrightarrow>
         Context_set h1 b k v = Some (assign h1 b k v, JCtx b)
         \<and> Context_get (assign h1 b k v) a k = v)
    \<and> (\<forall>h2 r k'. Context_set h1 a k v = Some (h2, r) \<longrightarrow>
          Context_get h2 b k' = Context_get h2 a k')
    \<and> (\<forall>h2 r k'. Context_set h1 b k v = Some (h2, r) \<longrightarrow>
          Context_get h2 a k' = Context_get h2 b k')
    \<and> Context_get (fst (withSession h1 a (Some s))) b ''x-textile-session'' = JStr s
    \<and> Context_get (fst (withSession h1 b (Some s))) a ''x-textile-session'' = JStr s
    \<and> (\<forall>calls k'. Context_get (run_calls ts h1 a calls) b k' =
          (case spec_last_value ts calls k' of Some w \<Rightarrow> w | None \<Rightarrow> Context_get h b k'))
    \<and> (\<forall>calls k'. Context_get (run_calls ts h1 b calls) a k' =
          (case spec_last_value ts calls k' of Some w \<Rightarrow> w | None \<Rightarrow> Context_get h b k'))
    \<and> (a \<noteq> b \<and> toJSON h1 c \<noteq> toJSON h1 b \<longrightarrow>
         (\<forall>h2 r k'. Context_set (fst (withContext h1 a (Some c))) b k v = Some (h2, r) \<longrightarrow>
               Context_get h2 a k' = Context_get h1 c k'))"
proof -
  have p: "ctxs h1 a = ctxs h b" "ctxs h1 b = ctxs h b"
    by (simp_all add: h1 withContext_ctxs)
  have o: "objs h1 = objs h" and pr: "protos h1 = protos h"
    by (simp_all add: h1)
  have e: "map_option fst (Context_set h1 a k v) = map_option fst (Context_set h1 b k v)"
    by (rule Context_set_same_object) (simp add: p)
  have s1: "Context_set h1 a k v = Some (assign h1 a k v, JCtx a)
            \<and> Context_get (assign h1 a k v) b k = v"
    and s2: "Context_set h1 b k v = Some (assign h1 b k v, JCtx b)
            \<and> Context_get (assign h1 b k v) a k = v"
    if "k \<noteq> ''__proto__''"
    using that by (simp_all add: Context_set_def writes_own_def Context_get_assign p)
  have g1: "Context_get h2 b k' = Context_get h2 a k'"
    if "Context_set h1 a k v = Some (h2, r)" for h2 r k'
    using Context_set_ctxs [OF that] by (intro Context_get_same_object) (simp add: p)
  have g2: "Context_get h2 a k' = Context_get h2 b k'"
    if "Context_set h1 b k v = Some (h2, r)" for h2 r k'
    using Context_set_ctxs [OF that] by (intro Context_get_same_object) (simp add: p)
  have w1: "Context_get (fst (withSession h1 a (Some s))) b ''x-textile-session'' = JStr s"
    and w2: "Context_get (fst (withSession h1 b (Some s))) a ''x-textile-session'' = JStr s"
    by (simp_all add: withSession_def Context_get_assign p)
  have r1: "Context_get (run_calls ts h1 a calls) b k' =
          (case spec_last_value ts calls k' of Some w \<Rightarrow> w | None \<Rightarrow> Context_get h b k')"
    for calls k'
    using run_calls_objs [of ts h1 a calls k']
    by (simp add: Context_get_def p o pr split: option.splits)
  have r2: "Context_get (run_calls ts h1 b calls) a k' =
          (case spec_last_value ts calls k' of Some w \<Rightarrow> w | None \<Rightarrow> Context_get h b k')"
    for calls k'
    using run_calls_objs [of ts h1 b calls k']
    by (simp add: Context_get_def p o pr split: option.splits)
  have u: "Context_get h2 a k' = Context_get h1 c k'"
    if "a \<noteq> b" and "toJSON h1 c \<noteq> toJSON h1 b"
      and "Context_set (fst (withContext h1 a (Some c))) b k v = Some (h2, r)" for h2 r k'
  proof -
    let ?h = "fst (withContext h1 a (Some c))"
    from that(1,2) have d: "ctxs ?h a \<noteq> ctxs ?h b"
      by (simp add: withContext_ctxs toJSON_def)
    have "Context_get h2 a k' = Context_get ?h a k'"
      by (rule Context_set_other_object [OF that(3) d])
    also have "\<dots> = Context_get h1 c k'"
      by (simp add: Context_get_def withContext_ctxs split: option.split)
    finally show ?thesis .
  qed
  have t: "toJSON h1 a = toJSON h b" "toJSON h1 b = toJSON h b"
    using p by (simp_all add: toJSON_def)
  show ?thesis
  proof (intro conjI allI impI)
    show "toJSON h1 a = toJSON h b" "toJSON h1 b = toJSON h b" "objs h1 = objs h"
      by (fact t o)+
    show "map_option fst (Context_set h1 a k v) = map_option fst (Context_set h1 b k v)"
      by (fact e)
    show "Context_set h1 a k v = Some (assign h1 a k v, JCtx a)"
      and "Context_get (assign h1 a k v) b k = v"
      and "Context_set h1 b k v = Some (assign h1 b k v, JCtx b)"
      and "Context_get (assign h1 b k v) a k = v"
      if "k \<noteq> ''__proto__''"
      using s1 [OF that] s2 [OF that] by simp_all
    show "Context_get h2 b k' = Context_get h2 a k'"
      if "Context_set h1 a k v = Some (h2, r)" for h2 r k'
      using that by (rule g1)
    show "Context_get h2 a k' = Context_get h2 b k'"
      if "Context_set h1 b k v = Some (h2, r)" for h2 r k'
      using that by (rule g2)
    show "Context_get (fst (withSession h1 a (Some s))) b ''x-textile-session'' = JStr s"
      and "Context_get (fst (withSession h1 b (Some s))) a ''x-textile-session'' = JStr s"
      by (fact w1 w2)+
    show "Context_get (run_calls ts h1 a calls) b k' =
          (case spec_last_value ts calls k' of Some w \<Rightarrow> w | None \<Rightarrow> Context_get h b k')"
      and "Context_get (run_calls ts h1 b calls) a k' =
          (case spec_last_value ts calls k' of Some w \<Rightarrow> w | None \<Rightarrow> Context_get h b k')"
      for calls k'
      by (fact r1 r2)+
    show "Context_get h2 a k' = Context_get h1 c k'"
      if "a \<noteq> b \<and> toJSON h1 c \<noteq> toJSON h1 b"
        and "Context_set (fst (withContext h1 a (Some c))) b k v = Some (h2, r)" for h2 r k'
      using that u by blast
  qed
qed

theorem withContext_shares_key_set_witness:
  "(1::nat) \<noteq> 3
   \<and> toJSON (fst (withContext three_contexts 1 (Some 3))) 5
       \<noteq> toJSON (fst (withContext three_contexts 1 (Some 3))) 3
   \<and> ''x-extra'' \<noteq> ''__proto__''
   \<and> Context_set (fst (withContext three_contexts 1 (Some 3))) 3 ''x-extra'' (JNum 7)
       = Some (assign (fst (withContext three_contexts 1 (Some 3))) 3 ''x-extra'' (JNum 7), JCtx 3)
   \<and> Context_get (assign (fst (withContext three_contexts 1 (Some 3))) 3 ''x-extra'' (JNum 7))
        1 ''x-extra'' = JNum 7
   \<and> Context_get (fst (withContext three_contexts 1 (Some 3))) 3 ''toString''
       = JBuiltin ''Object.prototype.toString''
   \<and> Context_set (fst (withContext three_contexts 1 (Some 3))) 1 ''__proto__'' JNull
       = Some ((fst (withContext three_contexts 1 (Some 3)))
                 \<lparr>protos := (protos three_contexts)(2 := NullPrototype)\<rparr>, JCtx 1)
   \<and> Context_get ((fst (withContext three_contexts 1 (Some 3)))
                 \<lparr>protos := (protos three_contexts)(2 := NullPrototype)\<rparr>) 3 ''toString''
       = JUndefined
   \<and> Context_set (fst (withContext (fst (withContext three_contexts 1 (Some 3))) 1 (Some 5)))
         3 ''debug'' JNull
       = Some (assign (fst (withContext (fst (withContext three_contexts 1 (Some 3))) 1 (Some 5)))
                 3 ''debug'' JNull, JCtx 3)
   \<and> Context_get
        (assign (fst (withContext (fst (withContext three_contexts 1 (Some 3))) 1 (Some 5)))
           3 ''debug'' JNull)
        1 ''debug'' = JBool True"
proof -
  let ?h1 = "fst (withContext three_contexts 1 (Some 3))"
  let ?hn = "?h1\<lparr>protos := (protos three_contexts)(2 := NullPrototype)\<rparr>"
  let ?h3 = "fst (withContext ?h1 1 (Some 5))"
  note X = withContext_shares_key_set [of ?h1 three_contexts 1 3 "''x-extra''" "JNum 7"
             "''s''" base16_string 5, OF refl]
  note N = withContext_shares_key_set [of ?h1 three_contexts 1 3 "''__proto__''" JNull
             "''s''" base16_string 5, OF refl]
  note D = withContext_shares_key_set [of ?h1 three_contexts 1 3 "''debug''" JNull
             "''s''" base16_string 5, OF refl]
  have c: "ctxs ?h1 1 = 2" "ctxs ?h1 3 = 2" "ctxs ?h1 5 = 4"
    by (simp_all add: withContext_ctxs three_contexts_ctxs del: One_nat_def)
  have ab: "(1::nat) \<noteq> 3"
    by simp
  have ne: "toJSON ?h1 5 \<noteq> toJSON ?h1 3"
    by (simp add: toJSON_def c del: One_nat_def)
  have xk: "''x-extra'' \<noteq> ''__proto__''"
    by simp
  have p2: "protos three_contexts 2 = ObjectPrototype" "objs three_contexts 2 ''__proto__'' = None"
    "objs three_contexts 2 ''toString'' = None"
    by (simp_all add: three_contexts_def Context_new_def empty_heap_def Let_def assign_def)
  from X xk have x1: "Context_set ?h1 3 ''x-extra'' (JNum 7)
                        = Some (assign ?h1 3 ''x-extra'' (JNum 7), JCtx 3)"
    and x2: "Context_get (assign ?h1 3 ''x-extra'' (JNum 7)) 1 ''x-extra'' = JNum 7"
    by simp_all
  have ts: "Context_get ?h1 3 ''toString'' = JBuiltin ''Object.prototype.toString''"
    by (simp add: Context_get_def c p2 inherited_def Object_prototype_def del: One_nat_def)
  have pr: "protos ?h1 = protos three_contexts"
    by simp
  have n1: "Context_set ?h1 1 ''__proto__'' JNull = Some (?hn, JCtx 1)"
    by (simp add: Context_set_def writes_own_def c p2 del: One_nat_def)
  have "Context_get ?hn 1 ''toString'' = JUndefined"
    by (simp add: Context_get_def c p2 inherited_def del: One_nat_def split: option.split)
  with N n1 have n2: "Context_get ?hn 3 ''toString'' = JUndefined"
    by simp
  have d1: "Context_set ?h3 3 ''debug'' JNull = Some (assign ?h3 3 ''debug'' JNull, JCtx 3)"
    by (simp add: Context_set_def writes_own_def)
  have c5: "Context_get ?h1 5 ''debug'' = JBool True"
    using three_contexts_debug(1)
    by (simp add: Context_get_def c three_contexts_ctxs del: One_nat_def split: option.splits)
  from D ab ne d1 have "Context_get (assign ?h3 3 ''debug'' JNull) 1 ''debug''
                          = Context_get ?h1 5 ''debug''"
    by blast
  with c5 have d2: "Context_get (assign ?h3 3 ''debug'' JNull) 1 ''debug'' = JBool True"
    by simp
  from ab ne xk x1 x2 ts n1 n2 d1 d2 show ?thesis
    by (intro conjI)
qed

section \<open>Properties of the users API\<close>

lemma base64_decode_AAEC: "base64_decode ''AAEC'' = [0, 1, 2]"
  by (simp add: base64_decode_def base64_index_def List.map_filter_def)

lemma listInbox_fields:
  "rq_seek (listInboxMessages_req opts) =
     (case opts of None \<Rightarrow> None | Some ops \<Rightarrow>
        (case seek ops of None \<Rightarrow> None | Some v \<Rightarrow> if v = [] then None else Some v))"
  "rq_limit (listInboxMessages_req opts) =
     (case opts of None \<Rightarrow> None | Some ops \<Rightarrow>
        (case limit ops of None \<Rightarrow> None | Some v \<Rightarrow> if v = 0 then None else Some v))"
  "rq_ascending (listInboxMessages_req opts) =
     (case opts of None \<Rightarrow> None | Some ops \<Rightarrow>
        (case ascending ops of None \<Rightarrow> None | Some v \<Rightarrow> if v then Some v else None))"
  "rq_status (listInboxMessages_req opts) =
     (case opts of None \<Rightarrow> None | Some ops \<Rightarrow>
        (case status ops of None \<Rightarrow> None | Some v \<Rightarrow> if v = Status_ALL then None else Some v))"
proof -
  have st: "truthy_number (Status_num v) = (v \<noteq> Status_ALL)" for v
    by (cases v) (simp_all add: truthy_number_def)
  show "rq_seek (listInboxMessages_req opts) =
     (case opts of None \<Rightarrow> None | Some ops \<Rightarrow>
        (case seek ops of None \<Rightarrow> None | Some v \<Rightarrow> if v = [] then None else Some v))"
    by (simp add: listInboxMessages_req_def Let_def truthy_string_def split: option.split)
  show "rq_limit (listInboxMessages_req opts) =
     (case opts of None \<Rightarrow> None | Some ops \<Rightarrow>
        (case limit ops of None \<Rightarrow> None | Some v \<Rightarrow> if v = 0 then None else Some v))"
    by (simp add: listInboxMessages_req_def Let_def truthy_number_def split: option.split)
  show "rq_ascending (listInboxMessages_req opts) =
     (case opts of None \<Rightarrow> None | Some ops \<Rightarrow>
        (case ascending ops of None \<Rightarrow> None | Some v \<Rightarrow> if v then Some v else None))"
    by (simp add: listInboxMessages_req_def Let_def split: option.split)
  show "rq_status (listInboxMessages_req opts) =
     (case opts of None \<Rightarrow> None | Some ops \<Rightarrow>
        (case status ops of None \<Rightarrow> None | Some v \<Rightarrow> if v = Status_ALL then None else Some v))"
    by (simp add: listInboxMessages_req_def Let_def st split: option.split)
qed

lemma listSentbox_fields:
  "rq_seek (listSentboxMessages_req opts) =
     (case opts of None \<Rightarrow> None | Some ops \<Rightarrow>
        (case seek ops of None \<Rightarrow> None | Some v \<Rightarrow> if v = [] then None else Some v))"
  "rq_limit (listSentboxMessages_req opts) =
     (case opts of None \<Rightarrow> None | Some ops \<Rightarrow>
        (case limit ops of None \<Rightarrow> None | Some v \<Rightarrow> if v = 0 then None else Some v))"
  "rq_ascending (listSentboxMessages_req opts) =
     (case opts of None \<Rightarrow> None | Some ops \<Rightarrow>
        (case ascending ops of None \<Rightarrow> None | Some v \<Rightarrow> if v then Some v else None))"
  by (simp_all add: listSentboxMessages_req_def Let_def truthy_string_def truthy_number_def
        split: option.split)

text \<open>
  C2, as the code has it. A field is set on the outgoing list request exactly when the
  options object is given, the field is present in it and its value is truthy: a
  non-empty seek string, a limit other than 0, ascending \<open>true\<close>, a status other than
  \<open>ALL\<close>. The field then carries that value. An absent field is omitted, and so is a
  present field whose value is falsy.
\<close>

theorem list_requests_carry_truthy_fields:
  "(rq_seek (listInboxMessages_req opts) = Some v) =
     (\<exists>ops. opts = Some ops \<and> seek ops = Some v \<and> v \<noteq> [])
   \<and> (rq_limit (listInboxMessages_req opts) = Some n) =
     (\<exists>ops. opts = Some ops \<and> limit ops = Some n \<and> n \<noteq> 0)
   \<and> (rq_ascending (listInboxMessages_req opts) = Some b) =
     (\<exists>ops. opts = Some ops \<and> ascending ops = Some b \<and> b)
   \<and> (rq_status (listInboxMessages_req opts) = Some st) =
     (\<exists>ops. opts = Some ops \<and> status ops = Some st \<and> st \<noteq> Status_ALL)
   \<and> (rq_seek (listSentboxMessages_req sopts) = Some v) =
     (\<exists>ops. sopts = Some ops \<and> seek ops = Some v \<and> v \<noteq> [])
   \<and> (rq_limit (listSentboxMessages_req sopts) = Some n) =
     (\<exists>ops. sopts = Some ops \<and> limit ops = Some n \<and> n \<noteq> 0)
   \<and> (rq_ascending (listSentboxMessages_req sopts) = Some b) =
     (\<exists>ops. sopts = Some ops \<and> ascending ops = Some b \<and> b)"
proof -
  have i1: "(rq_seek (listInboxMessages_req opts) = Some v) =
     (\<exists>ops. opts = Some ops \<and> seek ops = Some v \<and> v \<noteq> [])"
    by (auto simp add: listInbox_fields split: option.splits if_splits)
  have i2: "(rq_limit (listInboxMessages_req opts) = Some n) =
     (\<exists>ops. opts = Some ops \<and> limit ops = Some n \<and> n \<noteq> 0)"
    by (auto simp add: listInbox_fields split: option.splits if_splits)
  have i3: "(rq_ascending (listInboxMessages_req opts) = Some b) =
     (\<exists>ops. opts = Some ops \<and> ascending ops = Some b \<and> b)"
    by (auto simp add: listInbox_fields split: option.splits if_splits)
  have i4: "(rq_status (listInboxMessages_req opts) = Some st) =
     (\<exists>ops. opts = Some ops \<and> status ops = Some st \<and> st \<noteq> Status_ALL)"
    by (auto simp add: listInbox_fields split: option.splits if_splits)
  have s1: "(rq_seek (listSentboxMessages_req sopts) = Some v) =
     (\<exists>ops. sopts = Some ops \<and> seek ops = Some v \<and> v \<noteq> [])"
    by (auto simp add: listSentbox_fields split: option.splits if_splits)
  have s2: "(rq_limit (listSentboxMessages_req sopts) = Some n) =
     (\<exists>ops. sopts = Some ops \<and> limit ops = Some n \<and> n \<noteq> 0)"
    by (auto simp add: listSentbox_fields split: option.splits if_splits)
  have s3: "(rq_ascending (listSentboxMessages_req sopts) = Some b) =
     (\<exists>ops. sopts = Some ops \<and> ascending ops = Some b \<and> b)"
    by (auto simp add: listSentbox_fields split: option.splits if_splits)
  from i1 i2 i3 i4 s1 s2 s3 show ?thesis by blast
qed

text \<open>
  An options object in which all four fields are present with the values \<open>''\<close>, 0,
  \<open>false\<close> and \<open>ALL\<close>: no setter is called, for the inbox and for the sentbox.
\<close>

theorem list_requests_omit_present_falsy_fields:
  "limit \<lparr>seek = Some '''', limit = Some 0, ascending = Some False,
          status = Some Status_ALL\<rparr> = Some 0
   \<and> listInboxMessages_req
        (Some \<lparr>seek = Some '''', limit = Some 0, ascending = Some False,
               status = Some Status_ALL\<rparr>)
       = \<lparr>rq_seek = None, rq_limit = None, rq_ascending = None, rq_status = None\<rparr>
   \<and> listSentboxMessages_req (Some \<lparr>seek = Some '''', limit = Some 0, ascending = Some False\<rparr>)
       = \<lparr>rq_seek = None, rq_limit = None, rq_ascending = None\<rparr>"
  by (simp add: listInboxMessages_req_def listSentboxMessages_req_def Let_def
        truthy_number_def truthy_string_def)

text \<open>
  C3, as the code has it. \<open>retype\<close> does not inspect the action tag. For every update,
  whatever its tag, it calls the callback with an event and no error; the event's type
  is the tag as a number, so the tags 0, 1 and 2 give \<open>CREATE\<close>, \<open>SAVE\<close> and \<open>DELETE\<close>, and
  any other tag is handed on as it came. Only a missing update is forwarded with the
  error.
\<close>

theorem retype_copies_action_tag:
  "(\<exists>m. retype b64 (Some u) err =
          Callback (Some \<lparr>ev_type = upd_action u, ev_messageID = upd_instanceID u,
                          ev_message = m\<rparr>) None)
   \<and> (\<exists>m. retype b64 (Some (u\<lparr>upd_action := MailboxEventType_num t\<rparr>)) err =
          Callback (Some \<lparr>ev_type = MailboxEventType_num t, ev_messageID = upd_instanceID u,
                          ev_message = m\<rparr>) None)
   \<and> retype b64 None err = Callback None err"
  by (simp add: retype_def Let_def split: option.split)

text \<open>An update with the action tag 7 and no instance: the callback receives an event
  of type 7 and no error.\<close>

theorem retype_delivers_unrecognized_tag:
  "(7::int) \<notin> {MailboxEventType_num CREATE, MailboxEventType_num SAVE, MailboxEventType_num DELETE}
   \<and> retype base64_decode
        (Some \<lparr>upd_instance = None, upd_collectionName = ''inbox'',
               upd_instanceID = ''m1'', upd_action = 7\<rparr>) None
       = Callback (Some \<lparr>ev_type = 7, ev_messageID = ''m1'', ev_message = None\<rparr>) None"
  by (simp add: retype_def)

text \<open>
  C4, as the code has it. The event carries a message exactly when the update carries
  an instance, whatever the action tag. So an update without an instance gives an
  event without a message, in particular a \<open>DELETE\<close> update without an instance gives
  an event of type \<open>DELETE\<close> without a message; and a message, when present, has the
  event's \<open>messageID\<close> as its id.
\<close>

theorem retype_message_follows_instance:
  "retype b64 (Some u) err = Callback (Some ev) e \<Longrightarrow>
     (ev_message ev = None) = (upd_instance u = None)
     \<and> (upd_instance u = None \<and> upd_action u = MailboxEventType_num DELETE \<longrightarrow>
          ev_type ev = MailboxEventType_num DELETE \<and> ev_message ev = None)
     \<and> (\<forall>m. ev_message ev = Some m \<longrightarrow> um_id m = ev_messageID ev)"
  by (auto simp add: retype_def Let_def split: option.splits)

theorem retype_message_follows_instance_witness:
  "retype base64_decode
      (Some \<lparr>upd_instance = None, upd_collectionName = ''inbox'',
             upd_instanceID = ''m1'', upd_action = 2\<rparr>) None
     = Callback (Some \<lparr>ev_type = 2, ev_messageID = ''m1'', ev_message = None\<rparr>) None
   \<and> MailboxEventType_num DELETE = 2
   \<and> retype base64_decode
      (Some \<lparr>upd_instance = Some \<lparr>im_id = ''m2'', im_from = ''A'', im_to = ''B'',
                im_body = ''AAEC'', im_signature = ''AAEC'', im_created_at = 1000,
                im_read_at = 0\<rparr>,
             upd_collectionName = ''inbox'', upd_instanceID = ''m2'', upd_action = 0\<rparr>) None
     = Callback (Some \<lparr>ev_type = 0, ev_messageID = ''m2'',
          ev_message = Some \<lparr>um_id = ''m2'', um_to = ''B'', um_from = ''A'',
            um_body = [0, 1, 2], um_signature = [0, 1, 2], um_createdAt = 1000,
            um_readAt = Some 0\<rparr>\<rparr>) None"
proof -
  have r1: "retype base64_decode
      (Some \<lparr>upd_instance = None, upd_collectionName = ''inbox'',
             upd_instanceID = ''m1'', upd_action = 2\<rparr>) None
     = Callback (Some \<lparr>ev_type = 2, ev_messageID = ''m1'', ev_message = None\<rparr>) None"
    by (simp add: retype_def)
  have r2: "retype base64_decode
      (Some \<lparr>upd_instance = Some \<lparr>im_id = ''m2'', im_from = ''A'', im_to = ''B'',
                im_body = ''AAEC'', im_signature = ''AAEC'', im_created_at = 1000,
                im_read_at = 0\<rparr>,
             upd_collectionName = ''inbox'', upd_instanceID = ''m2'', upd_action = 0\<rparr>) None
     = Callback (Some \<lparr>ev_type = 0, ev_messageID = ''m2'',
          ev_message = Some \<lparr>um_id = ''m2'', um_to = ''B'', um_from = ''A'',
            um_body = [0, 1, 2], um_signature = [0, 1, 2], um_createdAt = 1000,
            um_readAt = Some 0\<rparr>\<rparr>) None"
    by (simp add: retype_def base64_decode_AAEC)
  from retype_message_follows_instance [OF r1] retype_message_follows_instance [OF r2] r1 r2
  show ?thesis by simp
qed

text \<open>An update with the action tag of \<open>DELETE\<close> that carries an instance: the event has
  type \<open>DELETE\<close> and a message.\<close>

theorem retype_delete_with_instance_has_message:
  "MailboxEventType_num DELETE = 2
   \<and> retype base64_decode
      (Some \<lparr>upd_instance = Some \<lparr>im_id = ''m3'', im_from = ''A'', im_to = ''B'',
                im_body = ''AAEC'', im_signature = ''AAEC'', im_created_at = 1000,
                im_read_at = 0\<rparr>,
             upd_collectionName = ''inbox'', upd_instanceID = ''m3'', upd_action = 2\<rparr>) None
     = Callback (Some \<lparr>ev_type = 2, ev_messageID = ''m3'',
          ev_message = Some \<lparr>um_id = ''m3'', um_to = ''B'', um_from = ''A'',
            um_body = [0, 1, 2], um_signature = [0, 1, 2], um_createdAt = 1000,
            um_readAt = Some 0\<rparr>\<rparr>) None"
  by (simp add: retype_def base64_decode_AAEC)

text \<open>
  C7. Whatever reply the server gives to the send request, the message \<open>sendMessage\<close>
  resolves to has the caller's \<open>fromBody\<close> as body, the caller's \<open>fromSignature\<close> as
  signature and the caller's \<open>to\<close> and \<open>from\<close>; the reply contributes the id and the
  creation time and nothing else.
\<close>

theorem sendMessage_returns_sender_copy:
  "unary_SendMessage api
       \<lparr>rq_to = to, rq_tobody = toBody, rq_tosignature = toSignature,
        rq_frombody = fromBody, rq_fromsignature = fromSignature\<rparr> ctx = Inr res \<Longrightarrow>
   sendMessage api from to toBody toSignature fromBody fromSignature ctx =
     Inr \<lparr>um_id = rp_id res, um_to = to, um_from = from, um_body = fromBody,
          um_signature = fromSignature, um_createdAt = rp_createdat res, um_readAt = None\<rparr>"
  by (simp add: sendMessage_def)

theorem sendMessage_returns_sender_copy_witness:
  "unary_SendMessage fixed_replies
       \<lparr>rq_to = ''bob'', rq_tobody = [1], rq_tosignature = [2],
        rq_frombody = [3], rq_fromsignature = [4]\<rparr> None
     = Inr \<lparr>rp_id = ''msg-1'', rp_createdat = 1000\<rparr>
   \<and> sendMessage fixed_replies ''alice'' ''bob'' [1] [2] [3] [4] None =
     Inr \<lparr>um_id = ''msg-1'', um_to = ''bob'', um_from = ''alice'', um_body = [3],
          um_signature = [4], um_createdAt = 1000, um_readAt = None\<rparr>"
proof -
  have r: "unary_SendMessage fixed_replies
       \<lparr>rq_to = ''bob'', rq_tobody = [1], rq_tosignature = [2],
        rq_frombody = [3], rq_fromsignature = [4]\<rparr> None
     = Inr \<lparr>rp_id = ''msg-1'', rp_createdat = 1000\<rparr>"
    by (simp add: fixed_replies_def)
  from sendMessage_returns_sender_copy [OF r, of "''alice''"] r show ?thesis
    by simp
qed

text \<open>
  C8. When the transport answers with a reply and \<open>ThreadID.fromBytes\<close> accepts the bytes
  that \<open>Buffer.from(..., 'base64')\<close> decodes from the reply's base64 identifier,
  \<open>setupMailbox\<close> resolves to \<open>toString()\<close> of that \<open>ThreadID\<close>: one decoding, one
  \<open>fromBytes\<close>, one \<open>toString\<close>. It resolves to the raw base64 text only if that text is
  itself the canonical string of the identifier.
\<close>

theorem setupMailbox_returns_canonical_string:
  assumes "unary_SetupMailbox api () ctx = Inr res"
    and "fromBytes (Buffer_from (getMailboxid_asB64 res)) = Inr tid"
  shows "setupMailbox Buffer_from fromBytes toString api ctx = Inr (toString tid)
    \<and> (setupMailbox Buffer_from fromBytes toString api ctx = Inr (getMailboxid_asB64 res))
        = (toString tid = getMailboxid_asB64 res)"
  using assms by (simp add: setupMailbox_def)

theorem setupMailbox_returns_canonical_string_witness:
  "unary_SetupMailbox fixed_replies () None = Inr \<lparr>getMailboxid_asB64 = ''AAEC''\<rparr>
   \<and> nonempty_fromBytes (base64_decode ''AAEC'') = Inr (ThreadID [0, 1, 2])
   \<and> setupMailbox base64_decode nonempty_fromBytes base16_string fixed_replies None
       = Inr ''f000102''
   \<and> setupMailbox base64_decode nonempty_fromBytes base16_string fixed_replies None
       \<noteq> Inr ''AAEC''"
proof -
  have r: "unary_SetupMailbox fixed_replies () None = Inr \<lparr>getMailboxid_asB64 = ''AAEC''\<rparr>"
    by (simp add: fixed_replies_def)
  have d: "nonempty_fromBytes (base64_decode (getMailboxid_asB64 \<lparr>getMailboxid_asB64 = ''AAEC''\<rparr>))
             = Inr (ThreadID [0, 1, 2])"
    by (simp add: base64_decode_AAEC nonempty_fromBytes_def)
  have s: "base16_string (ThreadID [0, 1, 2]) = ''f000102''"
    by (simp add: base16_string_def)
  from setupMailbox_returns_canonical_string
         [where fromBytes = nonempty_fromBytes and Buffer_from = base64_decode
            and toString = base16_string, OF r d]
       r d s
  show ?thesis by simp
qed

end
